theory Spec2Isabelle
  imports Main "HOL-Library.Word"
begin

unbundle bit_operations_syntax

section \<open>Data model\<close>

text \<open>
  The helpers of \<^verbatim>\<open>Vulkan::Tools\<close> work on values the Vulkan and SDL libraries hand
  out. Handles are opaque numbers with \<^verbatim>\<open>VK_NULL_HANDLE\<close> being \<open>0\<close>; what the
  library answers about a handle is kept in the record that stands for it.
  \<^verbatim>\<open>uint32\<close> and \<^verbatim>\<open>VkBool32\<close> are 32-bit words, so every sum and product on a
  score wraps as in the C++ code.
\<close>

type_synonym uint32 = "32 word"
type_synonym VkBool32 = "32 word"
type_synonym VkFlags = "32 word"
type_synonym VkHandle = nat
type_synonym VkSurfaceKHR = VkHandle

definition VK_NULL_HANDLE :: VkHandle where
  "VK_NULL_HANDLE = 0"

definition VK_TRUE :: VkBool32 where
  "VK_TRUE = 1"

definition UINT32_MAX :: uint32 where
  "UINT32_MAX = 0xFFFFFFFF"

text \<open>
  Every way the C++ code stops without a result. \<^verbatim>\<open>ASSERT\<close> of Core.hpp prints and
  calls \<^verbatim>\<open>exit(-1)\<close>; returning a handle that was never assigned and reading
  \<^verbatim>\<open>v[0]\<close> of an empty vector, which C++ leaves undefined, are failures of their own.
\<close>

datatype failure =
    InvalidHandle
  | NoPhysicalDevices
  | NoSuitablePhysicalDevice
  | UninitializedRead
  | OutOfRangeRead

text \<open>\<^verbatim>\<open>CheckValidHandle\<close> of Vulkan.hpp.\<close>

definition CheckValidHandle :: "VkHandle \<Rightarrow> bool" where
  "CheckValidHandle h = (h \<noteq> VK_NULL_HANDLE)"

subsection \<open>Enumerations of the Vulkan headers\<close>

text \<open>
  The C enums \<^verbatim>\<open>VkFormat\<close> and \<^verbatim>\<open>VkColorSpaceKHR\<close> are integers; the named values
  are those of \<^verbatim>\<open>vulkan_core.h\<close>. The code only compares them for equality.
\<close>

type_synonym VkFormat = int
type_synonym VkColorSpaceKHR = int

definition VK_FORMAT_R8G8B8A8_UNORM :: VkFormat where
  "VK_FORMAT_R8G8B8A8_UNORM = 37"

definition VK_FORMAT_B8G8R8A8_UNORM :: VkFormat where
  "VK_FORMAT_B8G8R8A8_UNORM = 44"

definition VK_FORMAT_B8G8R8A8_SRGB :: VkFormat where
  "VK_FORMAT_B8G8R8A8_SRGB = 50"

definition VK_COLOR_SPACE_SRGB_NONLINEAR_KHR :: VkColorSpaceKHR where
  "VK_COLOR_SPACE_SRGB_NONLINEAR_KHR = 0"

definition VK_COLOR_SPACE_EXTENDED_SRGB_LINEAR_EXT :: VkColorSpaceKHR where
  "VK_COLOR_SPACE_EXTENDED_SRGB_LINEAR_EXT = 1000104002"

datatype VkPresentModeKHR =
    VK_PRESENT_MODE_IMMEDIATE_KHR
  | VK_PRESENT_MODE_MAILBOX_KHR
  | VK_PRESENT_MODE_FIFO_KHR
  | VK_PRESENT_MODE_FIFO_RELAXED_KHR
  | VK_PRESENT_MODE_SHARED_DEMAND_REFRESH_KHR
  | VK_PRESENT_MODE_SHARED_CONTINUOUS_REFRESH_KHR

datatype VkQueueFlagBits =
    VK_QUEUE_GRAPHICS_BIT
  | VK_QUEUE_COMPUTE_BIT
  | VK_QUEUE_TRANSFER_BIT
  | VK_QUEUE_SPARSE_BINDING_BIT
  | VK_QUEUE_PROTECTED_BIT

text \<open>The bit each \<^verbatim>\<open>VkQueueFlagBits\<close> value stands for.\<close>

fun flagBits :: "VkQueueFlagBits \<Rightarrow> VkFlags" where
  "flagBits VK_QUEUE_GRAPHICS_BIT = 0x1"
| "flagBits VK_QUEUE_COMPUTE_BIT = 0x2"
| "flagBits VK_QUEUE_TRANSFER_BIT = 0x4"
| "flagBits VK_QUEUE_SPARSE_BINDING_BIT = 0x8"
| "flagBits VK_QUEUE_PROTECTED_BIT = 0x10"

text \<open>
  The result codes \<^verbatim>\<open>vkGetPhysicalDeviceSurfaceSupportKHR\<close> can return.
\<close>

datatype VkResult =
    VK_SUCCESS
  | VK_ERROR_OUT_OF_HOST_MEMORY
  | VK_ERROR_OUT_OF_DEVICE_MEMORY
  | VK_ERROR_SURFACE_LOST_KHR

definition VK_KHR_SWAPCHAIN_EXTENSION_NAME :: string where
  "VK_KHR_SWAPCHAIN_EXTENSION_NAME = ''VK_KHR_swapchain''"

subsection \<open>Locals without an initializer\<close>

text \<open>
  \<^verbatim>\<open>VkBool32 presentationSupported;\<close> declares a local without giving it a value. Until
  something is assigned to it, it is \<open>Unassigned c\<close>, where \<open>c\<close> is whatever its storage
  happens to hold. C++ gives no meaning to reading it in that state; the compiled code reads
  \<open>c\<close> and goes on, and so does the model: \<open>readFlag\<close> is the value a read yields and
  \<open>isAssigned\<close> tells whether that value was ever assigned.
\<close>

datatype flagVariable = Unassigned VkBool32 | Assigned VkBool32

fun readFlag :: "flagVariable \<Rightarrow> VkBool32" where
  "readFlag (Unassigned content) = content"
| "readFlag (Assigned v) = v"

fun isAssigned :: "flagVariable \<Rightarrow> bool" where
  "isAssigned (Unassigned content) = False"
| "isAssigned (Assigned v) = True"

subsection \<open>Structures\<close>

record VkSurfaceFormatKHR =
  format :: VkFormat
  colorSpace :: VkColorSpaceKHR

record VkExtent2D =
  width :: uint32
  height :: uint32

text \<open>The fields of \<^verbatim>\<open>VkSurfaceCapabilitiesKHR\<close> the extent selection reads.\<close>

record VkSurfaceCapabilitiesKHR =
  currentExtent :: VkExtent2D
  minImageExtent :: VkExtent2D
  maxImageExtent :: VkExtent2D

text \<open>
  What \<^verbatim>\<open>SDL_GetWindowSize\<close> stores for a window: two C \<^verbatim>\<open>int\<close>s.
\<close>

record SDL_Window =
  windowW :: int
  windowH :: int

record VkQueueFamilyProperties =
  queueFlags :: VkFlags
  queueCount :: uint32

text \<open>
  A physical device: its handle and what the environment answers while the device is
  examined. For queue family \<open>i\<close> and surface \<open>s\<close>, \<open>surfaceSupportResult s i\<close> is the
  result code of \<^verbatim>\<open>vkGetPhysicalDeviceSurfaceSupportKHR\<close> and \<open>surfaceSupport s i\<close> the
  value it stores when that code is \<^verbatim>\<open>VK_SUCCESS\<close>. \<open>stackContent k\<close> is what the storage
  of the local \<^verbatim>\<open>presentationSupported\<close> holds when the local is declared, before anything
  is assigned to it: the rating declares it once and finds \<open>stackContent 0\<close>; the queue
  index lookup declares it anew in the iteration for family \<open>k\<close>. \<open>deviceExtensions\<close> are
  the extension names the device advertises. \<open>presentModeCount s\<close> and
  \<open>surfaceFormatCount s\<close> are the counts the two surface queries store.
\<close>

record VkPhysicalDevice =
  handle :: VkHandle
  maxColorAttachments :: uint32
  maxDescriptorSetInputAttachments :: uint32
  maxImageDimension2D :: uint32
  maxImageArrayLayers :: uint32
  maxViewports :: uint32
  memoryHeapCount :: uint32
  multiViewport :: VkBool32
  queueFamilies :: "VkQueueFamilyProperties list"
  surfaceSupportResult :: "VkSurfaceKHR \<Rightarrow> uint32 \<Rightarrow> VkResult"
  surfaceSupport :: "VkSurfaceKHR \<Rightarrow> uint32 \<Rightarrow> VkBool32"
  stackContent :: "uint32 \<Rightarrow> VkBool32"
  deviceExtensions :: "string list"
  presentModeCount :: "VkSurfaceKHR \<Rightarrow> uint32"
  surfaceFormatCount :: "VkSurfaceKHR \<Rightarrow> uint32"

text \<open>
  The library call \<^verbatim>\<open>vkGetPhysicalDeviceSurfaceSupportKHR(physicalDevice, i, surface,
  &presentationSupported)\<close>: it returns a result code, and it assigns the flag only when
  that code is \<^verbatim>\<open>VK_SUCCESS\<close>; a failing call leaves the flag as it was.
\<close>

definition vkGetPhysicalDeviceSurfaceSupportKHR ::
  "VkPhysicalDevice \<Rightarrow> uint32 \<Rightarrow> VkSurfaceKHR \<Rightarrow> flagVariable \<Rightarrow> VkResult \<times> flagVariable" where
  "vkGetPhysicalDeviceSurfaceSupportKHR physicalDevice i surface pSupported =
     (if surfaceSupportResult physicalDevice surface i = VK_SUCCESS
      then (VK_SUCCESS, Assigned (surfaceSupport physicalDevice surface i))
      else (surfaceSupportResult physicalDevice surface i, pSupported))"

text \<open>An instance: its handle and the devices \<^verbatim>\<open>vkEnumeratePhysicalDevices\<close> lists.\<close>

record VkInstance =
  instanceHandle :: VkHandle
  physicalDevices :: "VkPhysicalDevice list"

section \<open>Swapchain selection helpers\<close>

text \<open>
  \<^verbatim>\<open>SelectSwapchainSurfacePresentMode\<close>: the loop returns at the first mailbox entry;
  after the loop the result is FIFO.
\<close>

fun SelectSwapchainSurfacePresentMode :: "VkPresentModeKHR list \<Rightarrow> VkPresentModeKHR" where
  "SelectSwapchainSurfacePresentMode [] = VK_PRESENT_MODE_FIFO_KHR"
| "SelectSwapchainSurfacePresentMode (mode # presentModes) =
     (if mode = VK_PRESENT_MODE_MAILBOX_KHR then mode
      else SelectSwapchainSurfacePresentMode presentModes)"

text \<open>
  \<^verbatim>\<open>SelectSwapchainSurfaceFormat\<close>: the loop returns the first entry with the wanted
  format and colour space; \<open>formatLoop\<close> is that loop, \<open>None\<close> when it runs to the end.
  After the loop the code returns \<^verbatim>\<open>formats[0]\<close>, which is undefined on an empty
  vector.
\<close>

fun formatLoop :: "VkSurfaceFormatKHR list \<Rightarrow> VkSurfaceFormatKHR option" where
  "formatLoop [] = None"
| "formatLoop (f # formats) =
     (if format f = VK_FORMAT_B8G8R8A8_SRGB \<and> colorSpace f = VK_COLOR_SPACE_SRGB_NONLINEAR_KHR
      then Some f else formatLoop formats)"

definition SelectSwapchainSurfaceFormat :: "VkSurfaceFormatKHR list \<Rightarrow> failure + VkSurfaceFormatKHR" where
  "SelectSwapchainSurfaceFormat formats =
     (case formatLoop formats of
        Some f \<Rightarrow> Inr f
      | None \<Rightarrow> (case formats of [] \<Rightarrow> Inl OutOfRangeRead | f # _ \<Rightarrow> Inr f))"

text \<open>
  \<^verbatim>\<open>SelectSwapchainSurfaceImageExtent\<close>. \<^verbatim>\<open>static_cast<uint32>\<close> of an \<^verbatim>\<open>int\<close> is the
  value modulo \<open>2^32\<close>, which is \<open>word_of_int\<close>; \<^verbatim>\<open>std::max\<close> and \<^verbatim>\<open>std::min\<close> compare
  unsigned.
\<close>

definition SelectSwapchainSurfaceImageExtent :: "SDL_Window \<Rightarrow> VkSurfaceCapabilitiesKHR \<Rightarrow> VkExtent2D" where
  "SelectSwapchainSurfaceImageExtent window capabilities =
     (if width (currentExtent capabilities) \<noteq> UINT32_MAX then currentExtent capabilities
      else
        let extent = \<lparr>width = word_of_int (windowW window), height = word_of_int (windowH window)\<rparr>;
            extent = extent\<lparr>width := max (width (minImageExtent capabilities))
                                     (min (width (maxImageExtent capabilities)) (width extent))\<rparr>;
            extent = extent\<lparr>height := max (height (minImageExtent capabilities))
                                      (min (height (maxImageExtent capabilities)) (height extent))\<rparr>
        in extent)"

section \<open>Queue family lookup\<close>






section \<open>Rating a physical device\<close>

text \<open>The weighted sum over limits, heap count and the multi-viewport feature.\<close>

definition limitsScore :: "VkPhysicalDevice \<Rightarrow> uint32" where
  "limitsScore physicalDevice =
     (let score = 0;
          score = score + maxColorAttachments physicalDevice * 100;
          score = score + maxDescriptorSetInputAttachments physicalDevice * 100;
          score = score + maxImageDimension2D physicalDevice * 1000;
          score = score + maxImageArrayLayers physicalDevice * 10;
          score = score + maxViewports physicalDevice * 500;
          score = score + memoryHeapCount physicalDevice * 1000;
          score = (if multiViewport physicalDevice = VK_TRUE then score + 500 else score)
      in score)"

text \<open>The first loop over the queue families: both tests run for every family.\<close>

fun queueLoop :: "VkQueueFamilyProperties list \<Rightarrow> uint32 \<Rightarrow> uint32" where
  "queueLoop [] score = score"
| "queueLoop (queue # queues) score =
     (let score = (if queueFlags queue AND flagBits VK_QUEUE_GRAPHICS_BIT \<noteq> 0
                   then score + 100000 else score);
          score = (if queueFlags queue AND flagBits VK_QUEUE_COMPUTE_BIT \<noteq> 0
                   then score + 50000 else score)
      in queueLoop queues score)"

text \<open>
  The second loop, run when a surface is given. \<^verbatim>\<open>presentationSupported\<close> is declared
  before the loop without a value. In the loop body the library call may assign it; its
  result code is discarded. The flag is then read: the loop leaves with \<^verbatim>\<open>break\<close> when
  it reads non-zero and counts \<open>i\<close> up otherwise. The result is the state after the loop.
\<close>

fun presentationLoop ::
  "VkPhysicalDevice \<Rightarrow> VkSurfaceKHR \<Rightarrow> VkQueueFamilyProperties list \<Rightarrow> uint32 \<Rightarrow> flagVariable
     \<Rightarrow> uint32 \<times> flagVariable" where
  "presentationLoop physicalDevice surface [] i presentationSupported =
     (i, presentationSupported)"
| "presentationLoop physicalDevice surface (queue # queues) i presentationSupported =
     (case vkGetPhysicalDeviceSurfaceSupportKHR physicalDevice i surface presentationSupported of
        (res, presentationSupported) \<Rightarrow>
          if readFlag presentationSupported \<noteq> 0 then (i, presentationSupported)
          else presentationLoop physicalDevice surface queues (i + 1) presentationSupported)"

text \<open>
  The test after the loop, \<^verbatim>\<open>i+1 == queues.size() && !presentationSupported\<close>. The
  sum \<open>i + 1\<close> is 32-bit and is compared with the \<^verbatim>\<open>size_t\<close> length; \<^verbatim>\<open>&&\<close> reads the
  flag only when the comparison holds. The result is the new score together with the
  answer to: did this test read the flag while nothing had been assigned to it?
\<close>

definition presentationCheck :: "VkPhysicalDevice \<Rightarrow> VkSurfaceKHR \<Rightarrow> uint32 \<Rightarrow> uint32 \<times> bool" where
  "presentationCheck physicalDevice surface score =
     (if surface \<noteq> VK_NULL_HANDLE then
        (case presentationLoop physicalDevice surface (queueFamilies physicalDevice) 0
                (Unassigned (stackContent physicalDevice 0)) of
           (i, presentationSupported) \<Rightarrow>
             if unat (i + 1) = length (queueFamilies physicalDevice) then
               (if readFlag presentationSupported = 0 then 0 else score + 110000,
                \<not> isAssigned presentationSupported)
             else (score + 110000, False))
      else (score, False))"

text \<open>
  The loop over the extension names; \<^verbatim>\<open>strcmp(a, b) == 0\<close> is equality of strings.
  \<^verbatim>\<open>EnumerateDeviceExtensionNames\<close> hands out pointers into a vector that is local to
  it, so what \<^verbatim>\<open>strcmp\<close> reads is storage that has been given back; the model takes
  that storage to hold the advertised names still.
\<close>

fun extensionLoop :: "string list \<Rightarrow> bool \<Rightarrow> bool" where
  "extensionLoop [] swapchainExtensionAvailable = swapchainExtensionAvailable"
| "extensionLoop (extension # extensions) swapchainExtensionAvailable =
     extensionLoop extensions
       (if extension = VK_KHR_SWAPCHAIN_EXTENSION_NAME then True else swapchainExtensionAvailable)"

text \<open>The last block: with a surface, no present mode or no format sets the score to 0.\<close>

definition surfaceCountsCheck :: "VkPhysicalDevice \<Rightarrow> VkSurfaceKHR \<Rightarrow> uint32 \<Rightarrow> uint32" where
  "surfaceCountsCheck physicalDevice surface score =
     (if surface \<noteq> VK_NULL_HANDLE then
        let score = (if presentModeCount physicalDevice surface = 0 then 0 else score);
            score = (if surfaceFormatCount physicalDevice surface = 0 then 0 else score)
        in score
      else score)"

definition RatePhysicalDevice :: "VkPhysicalDevice \<Rightarrow> VkSurfaceKHR \<Rightarrow> failure + uint32" where
  "RatePhysicalDevice physicalDevice surface =
     (if \<not> CheckValidHandle (handle physicalDevice) then Inl InvalidHandle
      else
        let score = limitsScore physicalDevice;
            score = queueLoop (queueFamilies physicalDevice) score
        in case presentationCheck physicalDevice surface score of
             (score, unassignedRead) \<Rightarrow>
               let swapchainExtensionAvailable =
                     extensionLoop (deviceExtensions physicalDevice) False;
                   score = (if \<not> swapchainExtensionAvailable then 0 else score);
                   score = surfaceCountsCheck physicalDevice surface score
               in Inr score)"

section \<open>Selecting the best physical device\<close>

text \<open>
  \<^verbatim>\<open>EnumeratePhysicalDevices\<close> of Vulkan.hpp asserts the handle and a count above zero.
\<close>

definition EnumeratePhysicalDevices :: "VkInstance \<Rightarrow> failure + VkPhysicalDevice list" where
  "EnumeratePhysicalDevices inst =
     (if \<not> CheckValidHandle (instanceHandle inst) then Inl InvalidHandle
      else if \<not> 0 < length (physicalDevices inst) then Inl NoPhysicalDevices
      else Inr (physicalDevices inst))"

text \<open>
  The scan of \<^verbatim>\<open>SelectBestPhysicalDevice\<close>: \<^verbatim>\<open>score\<close> starts at 0,
  \<^verbatim>\<open>selectedPhysicalDevice\<close> starts without a value, and a device replaces both when
  \<^verbatim>\<open>score < newScore\<close> (unsigned). A failing rating ends the program.
\<close>

fun selectLoop ::
  "VkSurfaceKHR \<Rightarrow> VkPhysicalDevice list \<Rightarrow> uint32 \<Rightarrow> VkPhysicalDevice option
     \<Rightarrow> failure + (uint32 \<times> VkPhysicalDevice option)" where
  "selectLoop surface [] score selectedPhysicalDevice = Inr (score, selectedPhysicalDevice)"
| "selectLoop surface (physicalDevice # rest) score selectedPhysicalDevice =
     (case RatePhysicalDevice physicalDevice surface of
        Inl e \<Rightarrow> Inl e
      | Inr newScore \<Rightarrow>
          if score < newScore then selectLoop surface rest newScore (Some physicalDevice)
          else selectLoop surface rest score selectedPhysicalDevice)"

text \<open>
  After the scan \<^verbatim>\<open>ASSERT(score != 0, ...)\<close> ends the program when nothing scored;
  \<^verbatim>\<open>GetPhysicalDeviceProperties\<close> then asserts the selected handle before the name is
  printed and the device returned.
\<close>

definition SelectBestPhysicalDevice :: "VkInstance \<Rightarrow> VkSurfaceKHR \<Rightarrow> failure + VkPhysicalDevice" where
  "SelectBestPhysicalDevice inst surface =
     (if \<not> CheckValidHandle (instanceHandle inst) then Inl InvalidHandle
      else case EnumeratePhysicalDevices inst of
        Inl e \<Rightarrow> Inl e
      | Inr physicalDeviceList \<Rightarrow>
          (case selectLoop surface physicalDeviceList 0 None of
             Inl e \<Rightarrow> Inl e
           | Inr (score, selectedPhysicalDevice) \<Rightarrow>
               if \<not> score \<noteq> 0 then Inl NoSuitablePhysicalDevice
               else (case selectedPhysicalDevice of
                       None \<Rightarrow> Inl UninitializedRead
                     | Some physicalDevice \<Rightarrow>
                         if \<not> CheckValidHandle (handle physicalDevice) then Inl InvalidHandle
                         else Inr physicalDevice)))"

section \<open>Example inputs\<close>

text \<open>
  Concrete devices on which the theorems below are evaluated. \<open>exampleDevice\<close> fixes the
  limits of a desktop GPU (they add up to \<open>16416180\<close> in \<open>limitsScore\<close>) and leaves
  open the handle, the queue families, the answer of the surface-support query and the
  extension names; every surface-support query succeeds, locals are found holding 0, and
  every surface has three present modes and two formats.
\<close>

definition exampleDevice ::
  "VkHandle \<Rightarrow> VkQueueFamilyProperties list \<Rightarrow> (uint32 \<Rightarrow> VkBool32) \<Rightarrow> string list
     \<Rightarrow> VkPhysicalDevice" where
  "exampleDevice h families support extensions =
     \<lparr>handle = h,
      maxColorAttachments = 8,
      maxDescriptorSetInputAttachments = 4,
      maxImageDimension2D = 16384,
      maxImageArrayLayers = 2048,
      maxViewports = 16,
      memoryHeapCount = 2,
      multiViewport = 1,
      queueFamilies = families,
      surfaceSupportResult = (\<lambda>surface i. VK_SUCCESS),
      surfaceSupport = (\<lambda>surface. support),
      stackContent = (\<lambda>k. 0),
      deviceExtensions = extensions,
      presentModeCount = (\<lambda>surface. 3),
      surfaceFormatCount = (\<lambda>surface. 2)\<rparr>"

definition graphicsFamily :: VkQueueFamilyProperties where
  "graphicsFamily = \<lparr>queueFlags = 0x1, queueCount = 1\<rparr>"

definition computeFamily :: VkQueueFamilyProperties where
  "computeFamily = \<lparr>queueFlags = 0x2, queueCount = 1\<rparr>"

definition withSwapchain :: "string list" where
  "withSwapchain = [''VK_KHR_maintenance1'', ''VK_KHR_swapchain'']"

definition noSwapchainDevice :: VkPhysicalDevice where
  "noSwapchainDevice = exampleDevice 11 [graphicsFamily] (\<lambda>i. 1) [''VK_KHR_maintenance1'']"

definition computeDevice :: VkPhysicalDevice where
  "computeDevice = exampleDevice 12 [computeFamily] (\<lambda>i. 1) withSwapchain"

definition firstGraphicsDevice :: VkPhysicalDevice where
  "firstGraphicsDevice = exampleDevice 13 [graphicsFamily] (\<lambda>i. 1) withSwapchain"

definition secondGraphicsDevice :: VkPhysicalDevice where
  "secondGraphicsDevice = exampleDevice 14 [graphicsFamily] (\<lambda>i. 1) withSwapchain"

text \<open>A device whose only queue family cannot present to any surface.\<close>

definition headlessDevice :: VkPhysicalDevice where
  "headlessDevice = exampleDevice 15 [graphicsFamily] (\<lambda>i. 0) withSwapchain"

text \<open>
  A device with one queue family whose surface-support query fails with
  \<^verbatim>\<open>VK_ERROR_SURFACE_LOST_KHR\<close>, examined while the storage of the flag holds 32767.
\<close>

definition failingQueryDevice :: VkPhysicalDevice where
  "failingQueryDevice =
     (exampleDevice 18 [graphicsFamily] (\<lambda>i. 0) withSwapchain)
       \<lparr>surfaceSupportResult := (\<lambda>surface i. VK_ERROR_SURFACE_LOST_KHR),
        stackContent := (\<lambda>k. 32767)\<rparr>"

text \<open>Three families, of which the second and third can present.\<close>

definition threeFamilyDevice :: VkPhysicalDevice where
  "threeFamilyDevice =
     exampleDevice 17 [graphicsFamily, computeFamily, graphicsFamily]
       (\<lambda>i. if i = 0 then 0 else 1) withSwapchain"

lemmas example_simps = RatePhysicalDevice_def limitsScore_def presentationCheck_def
  vkGetPhysicalDeviceSurfaceSupportKHR_def
  surfaceCountsCheck_def CheckValidHandle_def VK_NULL_HANDLE_def VK_TRUE_def
  VK_KHR_SWAPCHAIN_EXTENSION_NAME_def exampleDevice_def graphicsFamily_def computeFamily_def
  withSwapchain_def Let_def

lemmas device_simps = noSwapchainDevice_def computeDevice_def firstGraphicsDevice_def
  secondGraphicsDevice_def headlessDevice_def threeFamilyDevice_def
  failingQueryDevice_def

lemma example_scores:
  "RatePhysicalDevice noSwapchainDevice 7 = Inr 0"
  "RatePhysicalDevice computeDevice 7 = Inr 16576180"
  "RatePhysicalDevice firstGraphicsDevice 7 = Inr 16626180"
  "RatePhysicalDevice secondGraphicsDevice 7 = Inr 16626180"
  by (simp_all add: device_simps example_simps)

lemma example_handles:
  "handle noSwapchainDevice = 11" "handle computeDevice = 12"
  "handle firstGraphicsDevice = 13" "handle secondGraphicsDevice = 14"
  by (simp_all add: device_simps exampleDevice_def)

section \<open>Present mode selection\<close>

lemma present_mode_by_membership:
  "SelectSwapchainSurfacePresentMode presentModes =
     (if VK_PRESENT_MODE_MAILBOX_KHR \<in> set presentModes
      then VK_PRESENT_MODE_MAILBOX_KHR else VK_PRESENT_MODE_FIFO_KHR)"
  by (induction presentModes) auto

text \<open>
  Claim C7. For every list of present modes the result is the mailbox mode when it occurs
  anywhere in the list and the FIFO mode otherwise; two lists with the same members, in
  whatever order, give the same result.
\<close>

theorem present_mode_mailbox_else_fifo:
  "SelectSwapchainSurfacePresentMode presentModes =
     (if VK_PRESENT_MODE_MAILBOX_KHR \<in> set presentModes
      then VK_PRESENT_MODE_MAILBOX_KHR else VK_PRESENT_MODE_FIFO_KHR)
   \<and> (set others = set presentModes \<longrightarrow>
        SelectSwapchainSurfacePresentMode others = SelectSwapchainSurfacePresentMode presentModes)"
  by (simp add: present_mode_by_membership)

theorem present_mode_mailbox_else_fifo_witness:
  "set [VK_PRESENT_MODE_IMMEDIATE_KHR, VK_PRESENT_MODE_MAILBOX_KHR, VK_PRESENT_MODE_FIFO_KHR]
     = set [VK_PRESENT_MODE_FIFO_KHR, VK_PRESENT_MODE_IMMEDIATE_KHR, VK_PRESENT_MODE_MAILBOX_KHR]
   \<and> SelectSwapchainSurfacePresentMode
        [VK_PRESENT_MODE_IMMEDIATE_KHR, VK_PRESENT_MODE_MAILBOX_KHR, VK_PRESENT_MODE_FIFO_KHR]
       = VK_PRESENT_MODE_MAILBOX_KHR
   \<and> SelectSwapchainSurfacePresentMode
        [VK_PRESENT_MODE_FIFO_KHR, VK_PRESENT_MODE_IMMEDIATE_KHR, VK_PRESENT_MODE_MAILBOX_KHR]
       = VK_PRESENT_MODE_MAILBOX_KHR
   \<and> SelectSwapchainSurfacePresentMode
        [VK_PRESENT_MODE_IMMEDIATE_KHR, VK_PRESENT_MODE_FIFO_RELAXED_KHR]
       = VK_PRESENT_MODE_FIFO_KHR"
  using present_mode_mailbox_else_fifo
          [of "[VK_PRESENT_MODE_FIFO_KHR, VK_PRESENT_MODE_IMMEDIATE_KHR, VK_PRESENT_MODE_MAILBOX_KHR]"
              "[VK_PRESENT_MODE_IMMEDIATE_KHR, VK_PRESENT_MODE_MAILBOX_KHR, VK_PRESENT_MODE_FIFO_KHR]"]
        present_mode_mailbox_else_fifo
          [of "[VK_PRESENT_MODE_IMMEDIATE_KHR, VK_PRESENT_MODE_FIFO_RELAXED_KHR]" "[]"]
  by auto

section \<open>Surface format selection\<close>

lemma formatLoop_by_membership:
  "formatLoop formats =
     (if \<lparr>format = VK_FORMAT_B8G8R8A8_SRGB, colorSpace = VK_COLOR_SPACE_SRGB_NONLINEAR_KHR\<rparr>
           \<in> set formats
      then Some \<lparr>format = VK_FORMAT_B8G8R8A8_SRGB, colorSpace = VK_COLOR_SPACE_SRGB_NONLINEAR_KHR\<rparr>
      else None)"
  by (induction formats) auto

text \<open>
  Claim C6. On every non-empty list of (format, colour space) pairs, written here as
  \<open>first # others\<close>, the selection returns the pair (B8G8R8A8 sRGB, sRGB non-linear)
  when that pair is a member of the list, wherever it stands, and the first element of
  the list otherwise.
\<close>

theorem surface_format_preferred_else_first:
  "SelectSwapchainSurfaceFormat (first # others) =
     Inr (if \<lparr>format = VK_FORMAT_B8G8R8A8_SRGB, colorSpace = VK_COLOR_SPACE_SRGB_NONLINEAR_KHR\<rparr>
               \<in> set (first # others)
          then \<lparr>format = VK_FORMAT_B8G8R8A8_SRGB, colorSpace = VK_COLOR_SPACE_SRGB_NONLINEAR_KHR\<rparr>
          else first)"
  unfolding SelectSwapchainSurfaceFormat_def formatLoop_by_membership by simp

section \<open>Surface extent selection\<close>

lemma clamp_word_range:
  fixes lo hi x :: uint32
  assumes "lo \<le> hi"
  shows "lo \<le> max lo (min hi x) \<and> max lo (min hi x) \<le> hi"
  using assms by (auto simp: max_def min_def)

lemma clamp_word_uint:
  fixes lo hi :: uint32
  assumes "0 \<le> n" "n < 2 ^ 31"
  shows "uint (max lo (min hi (word_of_int n))) = max (uint lo) (min (uint hi) n)"
proof -
  have "uint (word_of_int n :: uint32) = n"
    using assms by (simp add: uint_word_of_int take_bit_int_eq_self)
  then show ?thesis
    by (simp add: max_def min_def word_le_def)
qed

text \<open>
  Claim C8. When the width of the current extent is not \<^verbatim>\<open>UINT32_MAX\<close> the result is the
  current extent, whatever the window size. Otherwise each dimension of the result is
  \<open>max lo (min hi x)\<close>, with \<open>x\<close> the window's size in that dimension converted to
  \<^verbatim>\<open>uint32\<close> and \<open>lo\<close>, \<open>hi\<close> the minimum and maximum image extent in that dimension. When
  \<open>lo \<le> hi\<close> the result lies in the inclusive range from \<open>lo\<close> to \<open>hi\<close>, and for a
  window size that is a non-negative \<^verbatim>\<open>int\<close> it is the clamp of that very number.
\<close>

theorem image_extent_current_or_clamped:
  "(width (currentExtent capabilities) \<noteq> UINT32_MAX \<longrightarrow>
      SelectSwapchainSurfaceImageExtent window capabilities = currentExtent capabilities)
   \<and> (width (currentExtent capabilities) = UINT32_MAX \<longrightarrow>
      SelectSwapchainSurfaceImageExtent window capabilities =
        \<lparr>width = max (width (minImageExtent capabilities))
                   (min (width (maxImageExtent capabilities)) (word_of_int (windowW window))),
         height = max (height (minImageExtent capabilities))
                   (min (height (maxImageExtent capabilities)) (word_of_int (windowH window)))\<rparr>)
   \<and> (width (currentExtent capabilities) = UINT32_MAX
        \<and> width (minImageExtent capabilities) \<le> width (maxImageExtent capabilities) \<longrightarrow>
      width (minImageExtent capabilities)
        \<le> width (SelectSwapchainSurfaceImageExtent window capabilities)
      \<and> width (SelectSwapchainSurfaceImageExtent window capabilities)
        \<le> width (maxImageExtent capabilities))
   \<and> (width (currentExtent capabilities) = UINT32_MAX
        \<and> height (minImageExtent capabilities) \<le> height (maxImageExtent capabilities) \<longrightarrow>
      height (minImageExtent capabilities)
        \<le> height (SelectSwapchainSurfaceImageExtent window capabilities)
      \<and> height (SelectSwapchainSurfaceImageExtent window capabilities)
        \<le> height (maxImageExtent capabilities))
   \<and> (width (currentExtent capabilities) = UINT32_MAX
        \<and> 0 \<le> windowW window \<and> windowW window < 2 ^ 31
        \<and> 0 \<le> windowH window \<and> windowH window < 2 ^ 31 \<longrightarrow>
      uint (width (SelectSwapchainSurfaceImageExtent window capabilities)) =
        max (uint (width (minImageExtent capabilities)))
            (min (uint (width (maxImageExtent capabilities))) (windowW window))
      \<and> uint (height (SelectSwapchainSurfaceImageExtent window capabilities)) =
        max (uint (height (minImageExtent capabilities)))
            (min (uint (height (maxImageExtent capabilities))) (windowH window)))"
proof -
  have sel: "width (currentExtent capabilities) = UINT32_MAX \<Longrightarrow>
      SelectSwapchainSurfaceImageExtent window capabilities =
        \<lparr>width = max (width (minImageExtent capabilities))
                   (min (width (maxImageExtent capabilities)) (word_of_int (windowW window))),
         height = max (height (minImageExtent capabilities))
                   (min (height (maxImageExtent capabilities)) (word_of_int (windowH window)))\<rparr>"
    by (simp add: SelectSwapchainSurfaceImageExtent_def Let_def)
  show ?thesis
    using clamp_word_range clamp_word_uint
    by (auto simp: sel) (simp add: SelectSwapchainSurfaceImageExtent_def)
qed

theorem image_extent_current_or_clamped_witness:
  "(800 :: uint32) \<noteq> UINT32_MAX
   \<and> (1 :: uint32) \<le> 1024
   \<and> (0 :: int) \<le> 1920 \<and> (1920 :: int) < 2 ^ 31
   \<and> (0 :: int) \<le> 1080 \<and> (1080 :: int) < 2 ^ 31
   \<and> SelectSwapchainSurfaceImageExtent \<lparr>windowW = 1920, windowH = 1080\<rparr>
     \<lparr>currentExtent = \<lparr>width = UINT32_MAX, height = UINT32_MAX\<rparr>,
      minImageExtent = \<lparr>width = 1, height = 1\<rparr>,
      maxImageExtent = \<lparr>width = 1024, height = 1024\<rparr>\<rparr> = \<lparr>width = 1024, height = 1024\<rparr>
   \<and> SelectSwapchainSurfaceImageExtent \<lparr>windowW = 1920, windowH = 1080\<rparr>
     \<lparr>currentExtent = \<lparr>width = 800, height = 600\<rparr>,
      minImageExtent = \<lparr>width = 1, height = 1\<rparr>,
      maxImageExtent = \<lparr>width = 1024, height = 1024\<rparr>\<rparr> = \<lparr>width = 800, height = 600\<rparr>"
  using image_extent_current_or_clamped
          [of "\<lparr>currentExtent = \<lparr>width = UINT32_MAX, height = UINT32_MAX\<rparr>,
                minImageExtent = \<lparr>width = 1, height = 1\<rparr>,
                maxImageExtent = \<lparr>width = 1024, height = 1024\<rparr>\<rparr>"
              "\<lparr>windowW = 1920, windowH = 1080\<rparr>"]
        image_extent_current_or_clamped
          [of "\<lparr>currentExtent = \<lparr>width = 800, height = 600\<rparr>,
                minImageExtent = \<lparr>width = 1, height = 1\<rparr>,
                maxImageExtent = \<lparr>width = 1024, height = 1024\<rparr>\<rparr>"
              "\<lparr>windowW = 1920, windowH = 1080\<rparr>"]
  by (simp add: UINT32_MAX_def)

section \<open>Rating: the queue family scan\<close>

text \<open>
  Claim C5, as amended. The scan adds 100000 for each queue family with the graphics bit
  and 50000 for each queue family with the compute bit (in 32-bit arithmetic): the two
  bonuses grow with the number of such families.
\<close>

theorem queue_bonus_per_family:
  "queueLoop queues score =
     score
     + 100000 * of_nat (length (filter (\<lambda>q. queueFlags q AND flagBits VK_QUEUE_GRAPHICS_BIT \<noteq> 0) queues))
     + 50000 * of_nat (length (filter (\<lambda>q. queueFlags q AND flagBits VK_QUEUE_COMPUTE_BIT \<noteq> 0) queues))"
  by (induction queues arbitrary: score) (simp_all add: Let_def algebra_simps)

text \<open>
  Against C5 as stated: one graphics family gives a bonus of 100000 and two give 200000,
  one compute family gives 50000 and three give 150000; two devices that differ only in
  having one or two graphics families are rated differently.
\<close>

theorem queue_bonus_not_fixed_counterexample:
  "queueLoop [graphicsFamily] 0 = 100000
   \<and> queueLoop [graphicsFamily, graphicsFamily] 0 = 200000
   \<and> queueLoop [computeFamily] 0 = 50000
   \<and> queueLoop [computeFamily, computeFamily, computeFamily] 0 = 150000
   \<and> RatePhysicalDevice (exampleDevice 13 [graphicsFamily] (\<lambda>i. 1) withSwapchain) 7
        = Inr 16626180
   \<and> RatePhysicalDevice (exampleDevice 13 [graphicsFamily, graphicsFamily] (\<lambda>i. 1) withSwapchain) 7
        = Inr 16726180"
  by (simp add: example_simps)

section \<open>Rating: the presentation check\<close>

text \<open>
  A 32-bit counter that has run over a whole vector is never one less than the length
  of that vector.
\<close>

lemma unat_succ_of_length: "unat (of_nat n + 1 :: uint32) \<noteq> n"
proof (cases "n < 2 ^ 32")
  case False
  have "unat (of_nat n + 1 :: uint32) < 2 ^ 32"
    using unsigned_less [of "of_nat n + 1 :: uint32"] by simp
  with False show ?thesis by simp
next
  case True
  have "unat (of_nat n + 1 :: uint32) = (n + 1) mod 2 ^ 32"
    by (simp add: unat_word_ariths unsigned_of_nat take_bit_eq_mod mod_simps)
  moreover have "(n + 1) mod 2 ^ 32 \<noteq> n"
  proof (cases "n + 1 < 2 ^ 32")
    case True
    then show ?thesis by simp
  next
    case False
    with \<open>n < 2 ^ 32\<close> have "n + 1 = 2 ^ 32" by simp
    then show ?thesis by simp
  qed
  ultimately show ?thesis by simp
qed

text \<open>
  After the loop either the flag reads non-zero (the loop left with \<^verbatim>\<open>break\<close>) or the
  counter has passed every family.
\<close>

lemma presentationLoop_state:
  "presentationLoop physicalDevice surface queues i flag = (j, flag') \<Longrightarrow>
     readFlag flag' \<noteq> 0 \<or> j = i + of_nat (length queues)"
proof (induction queues arbitrary: i flag)
  case Nil
  then show ?case by simp
next
  case (Cons q queues)
  obtain res flag1 where call:
    "vkGetPhysicalDeviceSurfaceSupportKHR physicalDevice i surface flag = (res, flag1)"
    by (cases "vkGetPhysicalDeviceSurfaceSupportKHR physicalDevice i surface flag")
  show ?case
  proof (cases "readFlag flag1 = 0")
    case True
    then have "presentationLoop physicalDevice surface queues (i + 1) flag1 = (j, flag')"
      using Cons.prems call by simp
    from Cons.IH [OF this] show ?thesis by (auto simp: add.assoc)
  next
    case False
    then show ?thesis using Cons.prems call by auto
  qed
qed

text \<open>
  So the branch \<^verbatim>\<open>score = 0\<close> of the test after the loop is never taken: with a
  surface the check adds 110000 whatever the queries answer.
\<close>

lemma presentationCheck_adds_bonus:
  "fst (presentationCheck physicalDevice surface score) =
     (if surface \<noteq> VK_NULL_HANDLE then score + 110000 else score)"
proof (cases "presentationLoop physicalDevice surface (queueFamilies physicalDevice) 0
                (Unassigned (stackContent physicalDevice 0))")
  case (Pair j flag')
  from presentationLoop_state [OF Pair]
  have "readFlag flag' \<noteq> 0 \<or> unat (j + 1) \<noteq> length (queueFamilies physicalDevice)"
    using unat_succ_of_length [of "length (queueFamilies physicalDevice)"] by auto
  then show ?thesis
    by (auto simp: presentationCheck_def Pair)
qed

lemma RatePhysicalDevice_returns:
  assumes "CheckValidHandle (handle physicalDevice)"
  shows "\<exists>score. RatePhysicalDevice physicalDevice surface = Inr score"
  using assms by (simp add: RatePhysicalDevice_def Let_def split: prod.splits)

text \<open>
  Claim C3, evaluated where it fails. \<open>headlessDevice\<close> has one graphics family, and the
  query for it succeeds and stores that it cannot present to surface 7; yet the rating
  with that surface is \<open>16416180 + 100000 + 110000\<close>: the presentation bonus is added
  and the score is not 0.
\<close>

theorem rate_ignores_missing_presentation_support:
  "surfaceSupport headlessDevice 7 = (\<lambda>i. 0)
   \<and> surfaceSupportResult headlessDevice 7 = (\<lambda>i. VK_SUCCESS)
   \<and> queueFamilies headlessDevice = [graphicsFamily]
   \<and> RatePhysicalDevice headlessDevice 7 = Inr 16626180"
  by (simp add: device_simps example_simps)

text \<open>
  When every query stores its answer, the flag is assigned in the first iteration; with
  no queue family it stays unassigned, but then \<open>i + 1\<close> is 1 and the length is 0, so the
  test after the loop does not read it.
\<close>

lemma presentationLoop_assigned:
  "\<forall>k. surfaceSupportResult physicalDevice surface k = VK_SUCCESS \<Longrightarrow>
   presentationLoop physicalDevice surface queues i flag = (j, flag') \<Longrightarrow>
     (queues = [] \<longrightarrow> j = i \<and> flag' = flag) \<and> (queues \<noteq> [] \<longrightarrow> isAssigned flag')"
proof (induction queues arbitrary: i flag)
  case Nil
  then show ?case by simp
next
  case (Cons q queues)
  let ?flag1 = "Assigned (surfaceSupport physicalDevice surface i)"
  have call: "vkGetPhysicalDeviceSurfaceSupportKHR physicalDevice i surface flag = (VK_SUCCESS, ?flag1)"
    using Cons.prems(1) by (simp add: vkGetPhysicalDeviceSurfaceSupportKHR_def)
  show ?case
  proof (cases "surfaceSupport physicalDevice surface i = 0")
    case True
    then have rest: "presentationLoop physicalDevice surface queues (i + 1) ?flag1 = (j, flag')"
      using Cons.prems(2) call by simp
    from Cons.IH [OF Cons.prems(1) rest] show ?thesis
      by (cases "queues = []") auto
  next
    case False
    then show ?thesis using Cons.prems(2) call by auto
  qed
qed

lemma presentationCheck_stored_no_unassigned_read:
  assumes "\<forall>k. surfaceSupportResult physicalDevice surface k = VK_SUCCESS"
  shows "\<not> snd (presentationCheck physicalDevice surface score)"
proof (cases "presentationLoop physicalDevice surface (queueFamilies physicalDevice) 0
                (Unassigned (stackContent physicalDevice 0))")
  case (Pair j flag')
  from presentationLoop_assigned [OF assms Pair] show ?thesis
    by (cases "queueFamilies physicalDevice = []") (auto simp: presentationCheck_def Pair)
qed

text \<open>
  The rating of \<open>failingQueryDevice\<close> with surface 7, step by step. The only query fails,
  so the flag stays unassigned; its storage holds 32767, so the loop leaves with
  \<^verbatim>\<open>break\<close> at \<open>i = 0\<close>; \<open>i + 1\<close> is the number of families, so the test after the loop
  goes on to read the flag.
\<close>

lemma failingQueryDevice_trace:
  "vkGetPhysicalDeviceSurfaceSupportKHR failingQueryDevice 0 7 (Unassigned 32767)
     = (VK_ERROR_SURFACE_LOST_KHR, Unassigned 32767)"
  "presentationLoop failingQueryDevice 7 (queueFamilies failingQueryDevice) 0
     (Unassigned (stackContent failingQueryDevice 0)) = (0, Unassigned 32767)"
  "presentationCheck failingQueryDevice 7 16516180 = (16626180, True)"
  "RatePhysicalDevice failingQueryDevice 7 = Inr 16626180"
  by (simp_all add: device_simps example_simps)

text \<open>
  Claim C9. There is an input on which the test after the presentation loop reads the
  flag although nothing was ever assigned to it: a device with a valid handle and a
  surface such that no query reports a supporting family (every call fails, and the code
  discards the result code), the flag is still unassigned after the loop, the loop has
  left at \<open>i = 0\<close> because the unassigned flag read non-zero, and \<open>i + 1\<close> equals the
  number of queue families, so that \<^verbatim>\<open>&&\<close> evaluates \<^verbatim>\<open>!presentationSupported\<close>.
\<close>

theorem presentation_flag_read_unassigned:
  "\<exists>physicalDevice surface score.
     CheckValidHandle (handle physicalDevice) \<and> surface \<noteq> VK_NULL_HANDLE
     \<and> (\<forall>i. surfaceSupportResult physicalDevice surface i \<noteq> VK_SUCCESS)
     \<and> presentationLoop physicalDevice surface (queueFamilies physicalDevice) 0
          (Unassigned (stackContent physicalDevice 0))
         = (0, Unassigned (stackContent physicalDevice 0))
     \<and> unat (0 + 1 :: uint32) = length (queueFamilies physicalDevice)
     \<and> snd (presentationCheck physicalDevice surface score)"
proof (intro exI conjI)
  show "CheckValidHandle (handle failingQueryDevice)"
    by (simp add: device_simps exampleDevice_def CheckValidHandle_def VK_NULL_HANDLE_def)
  show "(7 :: VkSurfaceKHR) \<noteq> VK_NULL_HANDLE"
    by (simp add: VK_NULL_HANDLE_def)
  show "\<forall>i. surfaceSupportResult failingQueryDevice 7 i \<noteq> VK_SUCCESS"
    by (simp add: device_simps exampleDevice_def)
  show "presentationLoop failingQueryDevice 7 (queueFamilies failingQueryDevice) 0
          (Unassigned (stackContent failingQueryDevice 0))
         = (0, Unassigned (stackContent failingQueryDevice 0))"
    by (simp add: failingQueryDevice_trace(2)) (simp add: device_simps exampleDevice_def)
  show "unat (0 + 1 :: uint32) = length (queueFamilies failingQueryDevice)"
    by (simp add: device_simps exampleDevice_def)
  show "snd (presentationCheck failingQueryDevice 7 16516180)"
    by (simp add: failingQueryDevice_trace(3))
qed

section \<open>Rating: the swapchain extension\<close>

lemma extensionLoop_member:
  "extensionLoop extensions available =
     (available \<or> VK_KHR_SWAPCHAIN_EXTENSION_NAME \<in> set extensions)"
  by (induction extensions arbitrary: available) auto

lemma surfaceCountsCheck_zero: "surfaceCountsCheck physicalDevice surface 0 = 0"
  by (simp add: surfaceCountsCheck_def)

text \<open>
  Claim C4. A device (with a valid handle, which the rating asserts first) whose
  extension names do not include \<^verbatim>\<open>VK_KHR_swapchain\<close> is rated 0, whatever its limits,
  features and queue families are and whether or not a surface is given.
\<close>

theorem rate_zero_without_swapchain:
  assumes "CheckValidHandle (handle physicalDevice)"
    and "VK_KHR_SWAPCHAIN_EXTENSION_NAME \<notin> set (deviceExtensions physicalDevice)"
  shows "RatePhysicalDevice physicalDevice surface = Inr 0"
  using assms
  by (simp add: RatePhysicalDevice_def Let_def extensionLoop_member surfaceCountsCheck_zero
           split: prod.splits)

theorem rate_zero_without_swapchain_witness:
  "CheckValidHandle (handle noSwapchainDevice)
   \<and> VK_KHR_SWAPCHAIN_EXTENSION_NAME \<notin> set (deviceExtensions noSwapchainDevice)
   \<and> RatePhysicalDevice noSwapchainDevice 7 = Inr 0
   \<and> RatePhysicalDevice noSwapchainDevice VK_NULL_HANDLE = Inr 0"
proof -
  have valid: "CheckValidHandle (handle noSwapchainDevice)"
    by (simp add: device_simps exampleDevice_def CheckValidHandle_def VK_NULL_HANDLE_def)
  have absent: "VK_KHR_SWAPCHAIN_EXTENSION_NAME \<notin> set (deviceExtensions noSwapchainDevice)"
    by (simp add: device_simps exampleDevice_def VK_KHR_SWAPCHAIN_EXTENSION_NAME_def)
  show ?thesis
    using valid absent
      rate_zero_without_swapchain [OF valid absent, of 7]
      rate_zero_without_swapchain [OF valid absent, of VK_NULL_HANDLE]
    by simp
qed

section \<open>Properties of the device selection\<close>

text \<open>A scan over devices that all rate at most the running score changes nothing.\<close>

lemma selectLoop_keeps:
  "\<forall>d\<in>set ds. \<exists>m. RatePhysicalDevice d surface = Inr m \<and> m \<le> score \<Longrightarrow>
     selectLoop surface ds score selected = Inr (score, selected)"
proof (induction ds)
  case Nil
  then show ?case by simp
next
  case (Cons d ds)
  then obtain m where "RatePhysicalDevice d surface = Inr m" "m \<le> score" by auto
  moreover have "selectLoop surface ds score selected = Inr (score, selected)"
    using Cons by simp
  ultimately show ?case by (simp add: leD)
qed

text \<open>
  A device rated \<open>n\<close>, above the running score, with only lower ratings before it and
  none higher after it, is what the scan ends with.
\<close>

lemma selectLoop_first_best:
  assumes "RatePhysicalDevice best surface = Inr n"
    and "\<forall>x\<in>set pre. \<exists>m. RatePhysicalDevice x surface = Inr m \<and> m < n"
    and "\<forall>x\<in>set post. \<exists>m. RatePhysicalDevice x surface = Inr m \<and> m \<le> n"
    and "score < n"
  shows "selectLoop surface (pre @ best # post) score selected = Inr (n, Some best)"
  using assms
proof (induction pre arbitrary: score selected)
  case Nil
  then show ?case by (simp add: selectLoop_keeps)
next
  case (Cons p pre)
  from Cons.prems(2) obtain m where m: "RatePhysicalDevice p surface = Inr m" "m < n" by auto
  have rest: "\<forall>x\<in>set pre. \<exists>m. RatePhysicalDevice x surface = Inr m \<and> m < n"
    using Cons.prems(2) by simp
  show ?case
  proof (cases "score < m")
    case True
    have "selectLoop surface (pre @ best # post) m (Some p) = Inr (n, Some best)"
      using Cons.prems(1) rest Cons.prems(3) m(2) by (rule Cons.IH)
    then show ?thesis using m True by simp
  next
    case False
    have "selectLoop surface (pre @ best # post) score selected = Inr (n, Some best)"
      using Cons.prems(1) rest Cons.prems(3) Cons.prems(4) by (rule Cons.IH)
    then show ?thesis using m False by simp
  qed
qed

text \<open>What the scan ends with is either what it started with or a device of the list.\<close>

lemma selectLoop_result:
  "selectLoop surface ds score selected = Inr (score', selected') \<Longrightarrow>
     (score' = score \<and> selected' = selected)
     \<or> (score < score' \<and> (\<exists>d\<in>set ds. selected' = Some d \<and> RatePhysicalDevice d surface = Inr score'))"
proof (induction ds arbitrary: score selected)
  case Nil
  then show ?case by simp
next
  case (Cons d ds)
  then obtain m where m: "RatePhysicalDevice d surface = Inr m"
    by (cases "RatePhysicalDevice d surface") auto
  show ?case
  proof (cases "score < m")
    case True
    then have "selectLoop surface ds m (Some d) = Inr (score', selected')"
      using Cons.prems m by simp
    from Cons.IH [OF this] show ?thesis using True m by auto
  next
    case False
    then have "selectLoop surface ds score selected = Inr (score', selected')"
      using Cons.prems m by simp
    from Cons.IH [OF this] show ?thesis by auto
  qed
qed


text \<open>
  Claim C1. Let the instance and every listed device have valid handles (the code asserts
  each) and let some device rate above zero. Then the scan, started at score 0 with no
  device selected, ends with a device \<open>best\<close> of rating \<open>n > 0\<close> such that every device
  before it in the list rates strictly less and every device after it rates at most
  \<open>n\<close>: the first device of the highest rating. That device is returned.
\<close>

theorem select_best_first_maximal:
  assumes inst: "CheckValidHandle (instanceHandle inst)"
    and handles: "\<forall>d\<in>set (physicalDevices inst). CheckValidHandle (handle d)"
    and positive: "\<exists>d\<in>set (physicalDevices inst). \<exists>n. RatePhysicalDevice d surface = Inr n \<and> 0 < n"
  shows "\<exists>pre best post n.
           physicalDevices inst = pre @ best # post
           \<and> SelectBestPhysicalDevice inst surface = Inr best
           \<and> selectLoop surface (physicalDevices inst) 0 None = Inr (n, Some best)
           \<and> RatePhysicalDevice best surface = Inr n \<and> 0 < n
           \<and> (\<forall>x\<in>set pre. \<exists>m. RatePhysicalDevice x surface = Inr m \<and> m < n)
           \<and> (\<forall>x\<in>set post. \<exists>m. RatePhysicalDevice x surface = Inr m \<and> m \<le> n)"
proof -
  let ?ds = "physicalDevices inst"
  define sc where "sc d = (case RatePhysicalDevice d surface of Inr m \<Rightarrow> m | Inl e \<Rightarrow> 0)" for d
  have rate: "RatePhysicalDevice d surface = Inr (sc d)" if "d \<in> set ?ds" for d
  proof -
    have "CheckValidHandle (handle d)" using handles that by blast
    then obtain m where "RatePhysicalDevice d surface = Inr m"
      using RatePhysicalDevice_returns [of d surface] by blast
    then show ?thesis by (simp add: sc_def)
  qed
  define n where "n = Max (sc ` set ?ds)"
  have nonempty: "?ds \<noteq> []" using positive by auto
  then have "n \<in> sc ` set ?ds" unfolding n_def by (intro Max_in) simp_all
  then have ex: "\<exists>d\<in>set ?ds. sc d = n" by auto
  have le: "sc d \<le> n" if "d \<in> set ?ds" for d
    unfolding n_def using that by (intro Max_ge) simp_all
  obtain d0 n0 where d0: "d0 \<in> set ?ds" "RatePhysicalDevice d0 surface = Inr n0" "0 < n0"
    using positive by blast
  then have "sc d0 = n0" using rate [of d0] by simp
  then have pos: "0 < n" using le [OF d0(1)] d0(3) by simp
  obtain pre best post where split: "?ds = pre @ best # post"
    and best: "sc best = n" and before: "\<forall>x\<in>set pre. sc x \<noteq> n"
    using split_list_first_prop [OF ex] by blast
  have rbest: "RatePhysicalDevice best surface = Inr n"
    using rate [of best] split best by simp
  have rpre: "\<forall>x\<in>set pre. \<exists>m. RatePhysicalDevice x surface = Inr m \<and> m < n"
  proof
    fix x assume x: "x \<in> set pre"
    then have mem: "x \<in> set ?ds" using split by simp
    have "sc x < n" using le [OF mem] before x by (simp add: order_less_le)
    then show "\<exists>m. RatePhysicalDevice x surface = Inr m \<and> m < n"
      using rate [OF mem] by blast
  qed
  have rpost: "\<forall>x\<in>set post. \<exists>m. RatePhysicalDevice x surface = Inr m \<and> m \<le> n"
  proof
    fix x assume "x \<in> set post"
    then have mem: "x \<in> set ?ds" using split by simp
    show "\<exists>m. RatePhysicalDevice x surface = Inr m \<and> m \<le> n"
      using rate [OF mem] le [OF mem] by blast
  qed
  have "selectLoop surface (pre @ best # post) 0 None = Inr (n, Some best)"
    using rbest rpre rpost pos by (rule selectLoop_first_best)
  then have loop: "selectLoop surface ?ds 0 None = Inr (n, Some best)"
    by (simp add: split)
  have "CheckValidHandle (handle best)" using handles split by simp
  then have "SelectBestPhysicalDevice inst surface = Inr best"
    using inst nonempty loop pos
    by (simp add: SelectBestPhysicalDevice_def EnumeratePhysicalDevices_def)
  then show ?thesis using split loop rbest pos rpre rpost by blast
qed


theorem select_best_first_maximal_witness:
  "CheckValidHandle 9
   \<and> CheckValidHandle (handle noSwapchainDevice) \<and> CheckValidHandle (handle computeDevice)
   \<and> CheckValidHandle (handle firstGraphicsDevice) \<and> CheckValidHandle (handle secondGraphicsDevice)
   \<and> RatePhysicalDevice noSwapchainDevice 7 = Inr 0
   \<and> RatePhysicalDevice computeDevice 7 = Inr 16576180
   \<and> RatePhysicalDevice firstGraphicsDevice 7 = Inr 16626180
   \<and> RatePhysicalDevice secondGraphicsDevice 7 = Inr 16626180
   \<and> SelectBestPhysicalDevice
        \<lparr>instanceHandle = 9,
         physicalDevices = [noSwapchainDevice, computeDevice, firstGraphicsDevice, secondGraphicsDevice]\<rparr> 7
       = Inr firstGraphicsDevice"
proof -
  let ?inst = "\<lparr>instanceHandle = 9,
         physicalDevices = [noSwapchainDevice, computeDevice, firstGraphicsDevice, secondGraphicsDevice]\<rparr>"
  have h1: "CheckValidHandle (instanceHandle ?inst)"
    by (simp add: CheckValidHandle_def VK_NULL_HANDLE_def)
  have h2: "\<forall>d\<in>set (physicalDevices ?inst). CheckValidHandle (handle d)"
    by (simp add: example_handles CheckValidHandle_def VK_NULL_HANDLE_def)
  have h3: "\<exists>d\<in>set (physicalDevices ?inst). \<exists>n. RatePhysicalDevice d 7 = Inr n \<and> 0 < n"
    by (simp add: example_scores)
  from select_best_first_maximal [OF h1 h2 h3] obtain best where
    sel: "SelectBestPhysicalDevice ?inst 7 = Inr best"
    by blast
  have "SelectBestPhysicalDevice ?inst 7 = Inr firstGraphicsDevice"
    by (simp add: SelectBestPhysicalDevice_def EnumeratePhysicalDevices_def example_scores
          example_handles CheckValidHandle_def VK_NULL_HANDLE_def)
  with sel have "best = firstGraphicsDevice" by simp
  with sel show ?thesis
    using h1 by (simp add: example_scores example_handles CheckValidHandle_def VK_NULL_HANDLE_def)
qed

text \<open>
  Claim C2. When every listed device rates 0 (the empty list included) the selection ends
  in a failure and returns no device: the assertion on the instance handle, the assertion
  of \<^verbatim>\<open>EnumeratePhysicalDevices\<close> on an empty list, or the assertion \<^verbatim>\<open>score != 0\<close>.
  Whenever the selection does return a device, it is one of the list and rates above 0.
\<close>

theorem select_best_fails_on_all_zero:
  "((\<forall>d\<in>set (physicalDevices inst). RatePhysicalDevice d surface = Inr 0) \<longrightarrow>
      SelectBestPhysicalDevice inst surface =
        Inl (if \<not> CheckValidHandle (instanceHandle inst) then InvalidHandle
             else if physicalDevices inst = [] then NoPhysicalDevices
             else NoSuitablePhysicalDevice))
   \<and> (SelectBestPhysicalDevice inst surface = Inr selected \<longrightarrow>
        selected \<in> set (physicalDevices inst)
        \<and> (\<exists>n. RatePhysicalDevice selected surface = Inr n \<and> 0 < n))"
proof (rule conjI; rule impI)
  assume zero: "\<forall>d\<in>set (physicalDevices inst). RatePhysicalDevice d surface = Inr 0"
  then have "\<forall>d\<in>set (physicalDevices inst). \<exists>m. RatePhysicalDevice d surface = Inr m \<and> m \<le> 0"
    by simp
  then have "selectLoop surface (physicalDevices inst) 0 None = Inr (0, None)"
    by (rule selectLoop_keeps)
  then show "SelectBestPhysicalDevice inst surface =
        Inl (if \<not> CheckValidHandle (instanceHandle inst) then InvalidHandle
             else if physicalDevices inst = [] then NoPhysicalDevices
             else NoSuitablePhysicalDevice)"
    by (simp add: SelectBestPhysicalDevice_def EnumeratePhysicalDevices_def)
next
  assume sel: "SelectBestPhysicalDevice inst surface = Inr selected"
  then obtain score selected' where
    loop: "selectLoop surface (physicalDevices inst) 0 None = Inr (score, selected')"
    and nz: "score \<noteq> 0" and some: "selected' = Some selected"
    by (auto simp: SelectBestPhysicalDevice_def EnumeratePhysicalDevices_def
             split: if_splits sum.splits option.splits)
  from selectLoop_result [OF loop] some
  have "selected \<in> set (physicalDevices inst)"
    and "RatePhysicalDevice selected surface = Inr score" and "0 < score"
    by auto
  then show "selected \<in> set (physicalDevices inst)
        \<and> (\<exists>n. RatePhysicalDevice selected surface = Inr n \<and> 0 < n)"
    by blast
qed

theorem select_best_fails_on_all_zero_witness:
  "RatePhysicalDevice noSwapchainDevice 7 = Inr 0
   \<and> SelectBestPhysicalDevice
        \<lparr>instanceHandle = 9, physicalDevices = [noSwapchainDevice, noSwapchainDevice]\<rparr> 7
       = Inl NoSuitablePhysicalDevice
   \<and> SelectBestPhysicalDevice \<lparr>instanceHandle = 9, physicalDevices = []\<rparr> 7
       = Inl NoPhysicalDevices
   \<and> SelectBestPhysicalDevice
        \<lparr>instanceHandle = 9, physicalDevices = [noSwapchainDevice, firstGraphicsDevice]\<rparr> 7
       = Inr firstGraphicsDevice
   \<and> RatePhysicalDevice firstGraphicsDevice 7 = Inr 16626180"
  using select_best_fails_on_all_zero
          [of "\<lparr>instanceHandle = 9, physicalDevices = [noSwapchainDevice, noSwapchainDevice]\<rparr>" 7]
        select_best_fails_on_all_zero
          [of "\<lparr>instanceHandle = 9, physicalDevices = []\<rparr>" 7]
        select_best_fails_on_all_zero
          [of "\<lparr>instanceHandle = 9, physicalDevices = [noSwapchainDevice, firstGraphicsDevice]\<rparr>" 7
              firstGraphicsDevice]
  by (simp add: SelectBestPhysicalDevice_def EnumeratePhysicalDevices_def example_scores
        example_handles CheckValidHandle_def VK_NULL_HANDLE_def)

section \<open>Properties of the queue family lookup\<close>














end
